theory Spec2Isabelle
  imports Complex_Main
begin

section \<open>Values, records and errors\<close>

text \<open>
  Chunk records travel through the code as Python dictionaries from field names to
  strings, integers and floats. Floating-point numbers are idealised as reals here, so
  every statement about a score is a statement about the exact dot product. What a
  score is after rounding to single precision is outside this idealisation; the
  statements below about errors, counts, positions and order do not depend on it.
\<close>

datatype pyval = PStr string | PInt int | PFloat real

type_synonym doc = "string \<rightharpoonup> pyval"

type_synonym vec = "real list"

text \<open>
  The exceptions the retrieval code can raise, one constructor per Python exception
  class, each carrying its message. \<open>APIError\<close> is what the store's client raises when
  the remote procedure fails. A message that a library builds from its operands is cut
  to its fixed part.
\<close>

datatype error =
    ValueError string
  | RuntimeError string
  | IndexError string
  | KeyError string
  | TypeError string
  | APIError string

subsection \<open>Settings\<close>

text \<open>
  Of \<open>Settings\<close> only the fields read by the retrievers are kept.
  \<open>TOP_K_RESULTS\<close> is \<open>int(os.getenv("TOP_K_RESULTS", "5"))\<close>: the environment's value,
  already parsed, when the variable is set, and 5 otherwise.
\<close>

record settings =
  SUPABASE_URL :: string
  SUPABASE_SERVICE_ROLE_KEY :: string
  TOP_K_RESULTS :: int

definition TOP_K_RESULTS_from_env :: "int option \<Rightarrow> int" where
  "TOP_K_RESULTS_from_env env = (case env of None \<Rightarrow> 5 | Some v \<Rightarrow> v)"

text \<open>
  Python's \<open>top_k or settings.TOP_K_RESULTS\<close>: the left operand when it is truthy, the
  right one when it is \<open>None\<close> or \<open>0\<close>.
\<close>

definition top_k_or :: "int option \<Rightarrow> int \<Rightarrow> int" where
  "top_k_or top_k dflt = (case top_k of None \<Rightarrow> dflt | Some k \<Rightarrow> if k = 0 then dflt else k)"

section \<open>The tensor operations used by the local retriever\<close>

text \<open>
  A two-dimensional tensor is the list of its rows. \<open>torch.mm\<close> of the query, as a
  \<open>1 \<times> D\<close> matrix, with the transposed embeddings raises a \<open>RuntimeError\<close> unless every
  row has the query's length; otherwise row 0 of the product holds the dot product of
  the query with each stored vector. A list of rows keeps no column count when it is
  empty, so the check passes on the empty tensor, which torch compares by the column
  count it was created with.
\<close>

definition dot :: "vec \<Rightarrow> vec \<Rightarrow> real" where
  "dot q v = sum_list (map2 (*) q v)"

definition torch_mm_row0 :: "vec \<Rightarrow> vec list \<Rightarrow> error + real list" where
  "torch_mm_row0 q E =
     (if list_all (\<lambda>v. length v = length q) E then Inr (map (dot q) E)
      else Inl (RuntimeError ''mat1 and mat2 shapes cannot be multiplied''))"

text \<open>
  \<open>torch.topk(input, k)\<close> raises a \<open>RuntimeError\<close> unless \<open>0 \<le> k \<le> len(input)\<close>, and
  otherwise returns the \<open>k\<close> largest values, largest first, each with its index.
  Torch leaves the order of equal values open; this model puts the lower index first.
  Torch reads \<open>k\<close> as a 64-bit integer and refuses a Python integer outside that range
  when it reads it. A tensor has fewer than \<open>2^63\<close> entries, so a count within the
  tensor's length is never refused that way.
\<close>

definition torch_topk :: "real list \<Rightarrow> int \<Rightarrow> error + (real \<times> nat) list" where
  "torch_topk scores k =
     (if 0 \<le> k \<and> k \<le> int (length scores)
      then Inr (take (nat k) (sort_key (\<lambda>p. - fst p) (zip scores [0..<length scores])))
      else if - (2 ^ 63) \<le> k \<and> k < 2 ^ 63
      then Inl (RuntimeError ''selected index k out of range'')
      else Inl (RuntimeError ''Overflow when unpacking long''))"

section \<open>LocalRetriever\<close>

text \<open>
  The retriever's state is its two attributes, each \<open>None\<close> until set. Moving a tensor
  to the device does not change its values, so \<open>.to(self.device)\<close> is the identity.
\<close>

record LocalRetriever =
  embeddings :: "vec list option"
  chunks :: "doc list option"

definition LocalRetriever_init :: "vec list option \<Rightarrow> doc list option \<Rightarrow> LocalRetriever" where
  "LocalRetriever_init embs chs = \<lparr>embeddings = embs, chunks = chs\<rparr>"

definition load_embeddings :: "LocalRetriever \<Rightarrow> vec list \<Rightarrow> doc list \<Rightarrow> LocalRetriever" where
  "load_embeddings self embs chs = self\<lparr>embeddings := Some embs, chunks := Some chs\<rparr>"

text \<open>
  The loop over \<open>zip(scores, indices)\<close>: each selected chunk is copied and given its
  score under \<open>similarity\<close> and its position under \<open>id\<close>. Indexing \<open>self.chunks\<close> past
  its end raises \<open>IndexError\<close>.
\<close>

fun build_documents :: "doc list \<Rightarrow> (real \<times> nat) list \<Rightarrow> error + doc list" where
  "build_documents chs [] = Inr []"
| "build_documents chs ((score, idx) # rest) =
     (if idx < length chs
      then (case build_documents chs rest of
              Inl e \<Rightarrow> Inl e
            | Inr documents \<Rightarrow>
                Inr (((chs ! idx)(''similarity'' \<mapsto> PFloat score, ''id'' \<mapsto> PInt (int idx)))
                     # documents))
      else Inl (IndexError ''list index out of range''))"

text \<open>
  \<open>LocalRetriever.search\<close> for a one-dimensional query. The \<open>except\<close> clause logs and
  re-raises, so an error of the tensor operations or of the loop is the result as it is.
\<close>

definition LocalRetriever_search ::
  "settings \<Rightarrow> LocalRetriever \<Rightarrow> vec \<Rightarrow> int option \<Rightarrow> error + doc list" where
  "LocalRetriever_search cfg self query_embedding top_k =
     (case (embeddings self, chunks self) of
        (Some embs, Some chs) \<Rightarrow>
          (let k = top_k_or top_k (TOP_K_RESULTS cfg) in
           case torch_mm_row0 query_embedding embs of
             Inl e \<Rightarrow> Inl e
           | Inr dot_scores \<Rightarrow>
               (case torch_topk dot_scores k of
                  Inl e \<Rightarrow> Inl e
                | Inr selected \<Rightarrow> build_documents chs selected))
      | _ \<Rightarrow> Inl (ValueError ''Embeddings not loaded. Call load_embeddings() first.''))"

text \<open>
  \<open>format_context\<close>: the fixed sentence for an empty (falsy) list, otherwise a dash
  before each item with \<open>"\n- "\<close> between the items. An item is the chunk's
  \<open>sentence_chunk\<close>, else its \<open>chunk_text\<close>, else the empty string. \<open>str.join\<close> raises
  \<open>TypeError\<close> on an item that is not a string.
\<close>

fun str_join :: "string \<Rightarrow> pyval list \<Rightarrow> error + string" where
  "str_join sep [] = Inr []"
| "str_join sep (PStr s # rest) =
     (case str_join sep rest of
        Inl e \<Rightarrow> Inl e
      | Inr t \<Rightarrow> Inr (if rest = [] then s else s @ sep @ t))"
| "str_join sep (v # rest) = Inl (TypeError ''sequence item: expected str instance'')"

definition context_item :: "doc \<Rightarrow> pyval" where
  "context_item d =
     (case d ''sentence_chunk'' of
        Some v \<Rightarrow> v
      | None \<Rightarrow> (case d ''chunk_text'' of Some v \<Rightarrow> v | None \<Rightarrow> PStr []))"

definition LocalRetriever_format_context :: "doc list \<Rightarrow> error + string" where
  "LocalRetriever_format_context documents =
     (if documents = [] then Inr ''No relevant context found.''
      else (case str_join [CHR 0x0A, CHR ''-'', CHR '' ''] (map context_item documents) of
              Inl e \<Rightarrow> Inl e
            | Inr joined \<Rightarrow> Inr (''- '' @ joined)))"

section \<open>SupabaseRetriever\<close>

text \<open>
  The table \<open>documents\<close> of the store, one record per row, and the SQL function
  \<open>match_documents\<close> of the docstring of \<open>create_search_function\<close>. The operator \<open><=>\<close>
  belongs to the store's vector extension: it is the parameter \<open>distance\<close>, and it fails on
  two vectors of different dimension. A negative \<open>LIMIT\<close> is an error of the store.
  SQL leaves the order of rows at the same distance open; this model keeps the order
  of the table among them. \<open>match_count\<close> is declared \<open>int\<close>; the model takes the count
  as the caller sends it and does not represent the store's refusal of a count beyond
  32 bits.
\<close>

record document_row =
  row_id :: int
  page_number :: int
  chunk_text :: string
  chunk_char_count :: int
  chunk_word_count :: int
  chunk_token_count :: real
  embedding :: vec

definition select_row :: "real \<Rightarrow> document_row \<Rightarrow> doc" where
  "select_row d r =
     [''id'' \<mapsto> PInt (row_id r),
      ''page_number'' \<mapsto> PInt (page_number r),
      ''chunk_text'' \<mapsto> PStr (chunk_text r),
      ''chunk_char_count'' \<mapsto> PInt (chunk_char_count r),
      ''chunk_word_count'' \<mapsto> PInt (chunk_word_count r),
      ''chunk_token_count'' \<mapsto> PFloat (chunk_token_count r),
      ''similarity'' \<mapsto> PFloat (1 - d)]"

definition match_documents ::
  "(vec \<Rightarrow> vec \<Rightarrow> real) \<Rightarrow> document_row list \<Rightarrow> vec \<Rightarrow> real \<Rightarrow> int \<Rightarrow> error + doc list" where
  "match_documents distance documents query_embedding match_threshold match_count =
     (if match_count < 0 then Inl (APIError ''LIMIT must not be negative'')
      else if \<not> list_all (\<lambda>r. length (embedding r) = length query_embedding) documents
      then Inl (APIError ''different vector dimensions'')
      else Inr (map (\<lambda>r. select_row (distance (embedding r) query_embedding) r)
             (take (nat match_count)
                (sort_key (\<lambda>r. distance (embedding r) query_embedding)
                   (filter (\<lambda>r. 1 - distance (embedding r) query_embedding > match_threshold)
                      documents)))))"

text \<open>
  The client is what \<open>self.client.rpc(name, params).execute()\<close> answers: the rows, or
  the exception raised by a failed call. \<open>store_client\<close> is the client of a reachable
  store that holds the table and has the function installed.
\<close>

record rpc_params =
  query_embedding :: vec
  match_threshold :: real
  match_count :: int

type_synonym client = "string \<Rightarrow> rpc_params \<Rightarrow> error + doc list"

definition store_client :: "(vec \<Rightarrow> vec \<Rightarrow> real) \<Rightarrow> document_row list \<Rightarrow> client" where
  "store_client distance documents name params =
     (if name = ''match_documents''
      then match_documents distance documents
             (query_embedding params) (match_threshold params) (match_count params)
      else Inl (APIError ''Could not find the function''))"

record SupabaseRetriever =
  client :: client

text \<open>
  \<open>SupabaseRetriever.search\<close>; \<open>similarity_threshold\<close> defaults to 0.5 when the caller
  leaves it out. The \<open>except\<close> clause logs and re-raises.
\<close>

definition SupabaseRetriever_search ::
  "settings \<Rightarrow> SupabaseRetriever \<Rightarrow> vec \<Rightarrow> int option \<Rightarrow> real option \<Rightarrow> error + doc list" where
  "SupabaseRetriever_search cfg self q top_k similarity_threshold =
     (let k = top_k_or top_k (TOP_K_RESULTS cfg);
          threshold = (case similarity_threshold of None \<Rightarrow> 1 / 2 | Some t \<Rightarrow> t)
      in client self ''match_documents''
           \<lparr>query_embedding = q, match_threshold = threshold, match_count = k\<rparr>)"

text \<open>
  Its \<open>format_context\<close> reads \<open>doc['chunk_text']\<close>, which raises \<open>KeyError\<close> on a
  document without that key.
\<close>

fun chunk_texts :: "doc list \<Rightarrow> error + pyval list" where
  "chunk_texts [] = Inr []"
| "chunk_texts (d # rest) =
     (case d ''chunk_text'' of
        None \<Rightarrow> Inl (KeyError ''chunk_text'')
      | Some v \<Rightarrow> (case chunk_texts rest of Inl e \<Rightarrow> Inl e | Inr vs \<Rightarrow> Inr (v # vs)))"

definition SupabaseRetriever_format_context :: "doc list \<Rightarrow> error + string" where
  "SupabaseRetriever_format_context documents =
     (if documents = [] then Inr ''No relevant context found.''
      else (case chunk_texts documents of
              Inl e \<Rightarrow> Inl e
            | Inr context_items \<Rightarrow>
                (case str_join [CHR 0x0A, CHR ''-'', CHR '' ''] context_items of
                   Inl e \<Rightarrow> Inl e
                 | Inr joined \<Rightarrow> Inr (''- '' @ joined))))"

section \<open>The retriever factory\<close>

text \<open>
  \<open>create_client\<close> belongs to the store's library and is a parameter: it answers a
  client or raises. The trace lists the calls that leave the process, in order; the
  factory's only one is the \<open>create_client\<close> of \<open>SupabaseRetriever.__init__\<close>.
\<close>

datatype event = CreateClient string string

datatype retriever = Local LocalRetriever | Supabase SupabaseRetriever

definition SupabaseRetriever_init ::
  "(string \<Rightarrow> string \<Rightarrow> error + client) \<Rightarrow> settings \<Rightarrow> (error + SupabaseRetriever) \<times> event list" where
  "SupabaseRetriever_init create_client cfg =
     ((case create_client (SUPABASE_URL cfg) (SUPABASE_SERVICE_ROLE_KEY cfg) of
         Inl e \<Rightarrow> Inl e
       | Inr c \<Rightarrow> Inr \<lparr>client = c\<rparr>),
      [CreateClient (SUPABASE_URL cfg) (SUPABASE_SERVICE_ROLE_KEY cfg)])"

text \<open>\<open>get_retriever\<close>; the mode defaults to \<open>"supabase"\<close> when left out.\<close>

definition get_retriever ::
  "(string \<Rightarrow> string \<Rightarrow> error + client) \<Rightarrow> settings \<Rightarrow> string option \<Rightarrow>
   vec list option \<Rightarrow> doc list option \<Rightarrow> (error + retriever) \<times> event list" where
  "get_retriever create_client cfg mode_arg embs chs =
     (let mode = (case mode_arg of None \<Rightarrow> ''supabase'' | Some m \<Rightarrow> m) in
      if mode = ''local'' then (Inr (Local (LocalRetriever_init embs chs)), [])
      else if mode = ''supabase'' then
        (case SupabaseRetriever_init create_client cfg of
           (Inl e, trace) \<Rightarrow> (Inl e, trace)
         | (Inr r, trace) \<Rightarrow> (Inr (Supabase r), trace))
      else (Inl (ValueError (''Invalid retriever mode: '' @ mode @ ''. Must be ''
                   @ [CHR 0x27] @ ''local'' @ [CHR 0x27] @ '' or ''
                   @ [CHR 0x27] @ ''supabase'' @ [CHR 0x27])), []))"

section \<open>GeminiEmbedder\<close>

text \<open>
  \<open>embed_content\<close> is the remote embedding call, a parameter that answers a vector or
  raises. \<open>embed_text\<close> logs and re-raises. \<open>numpy.zeros\<close> raises \<open>ValueError\<close> on a
  negative dimension, and \<open>range\<close> on a step of zero.
\<close>

record GeminiEmbedder =
  embedding_dimension :: int
  embed_content :: "string \<Rightarrow> error + vec"

definition embed_text :: "GeminiEmbedder \<Rightarrow> string \<Rightarrow> error + vec" where
  "embed_text self text = embed_content self text"

definition np_zeros :: "int \<Rightarrow> error + vec" where
  "np_zeros n =
     (if n < 0 then Inl (ValueError ''negative dimensions are not allowed'')
      else Inr (replicate (nat n) 0))"

text \<open>The inner loop of \<open>embed_chunks\<close>, over the chunks of one batch.\<close>

fun embed_batch :: "GeminiEmbedder \<Rightarrow> string list \<Rightarrow> error + vec list" where
  "embed_batch self [] = Inr []"
| "embed_batch self (chunk # rest) =
     (case (case embed_text self chunk of
              Inr e \<Rightarrow> Inr e
            | Inl _ \<Rightarrow> np_zeros (embedding_dimension self)) of
        Inl e \<Rightarrow> Inl e
      | Inr v \<Rightarrow>
          (case embed_batch self rest of
             Inl e \<Rightarrow> Inl e
           | Inr vs \<Rightarrow> Inr (v # vs)))"

text \<open>The outer loop, \<open>for i in range(0, total, batch_size)\<close> with a positive step.\<close>

function embed_from :: "GeminiEmbedder \<Rightarrow> string list \<Rightarrow> nat \<Rightarrow> nat \<Rightarrow> error + vec list" where
  "embed_from self chs batch_size i =
     (if 0 < batch_size \<and> i < length chs
      then (case embed_batch self (take batch_size (drop i chs)) of
              Inl e \<Rightarrow> Inl e
            | Inr vs \<Rightarrow>
                (case embed_from self chs batch_size (i + batch_size) of
                   Inl e \<Rightarrow> Inl e
                 | Inr ws \<Rightarrow> Inr (vs @ ws)))
      else Inr [])"
  by pat_completeness auto
termination
  by (relation "measure (\<lambda>(self, chs, batch_size, i). length chs - i)") auto

definition embed_chunks :: "GeminiEmbedder \<Rightarrow> string list \<Rightarrow> int option \<Rightarrow> error + vec list" where
  "embed_chunks self chs batch_size_arg =
     (let batch_size = (case batch_size_arg of None \<Rightarrow> 100 | Some b \<Rightarrow> b) in
      if batch_size = 0 then Inl (ValueError ''range() arg 3 must not be zero'')
      else if batch_size < 0 then Inr []
      else embed_from self chs (nat batch_size) 0)"

section \<open>Observations and fixtures\<close>

text \<open>The score a returned document carries under \<open>similarity\<close>, when it is a float.\<close>

definition doc_similarity :: "doc \<Rightarrow> real option" where
  "doc_similarity d = (case d ''similarity'' of Some (PFloat s) \<Rightarrow> Some s | _ \<Rightarrow> None)"

text \<open>
  What the specification asks of \<open>format_context\<close> on a non-empty result: one bullet
  item for each text, the items joined by newlines.
\<close>

fun bullet_list :: "string list \<Rightarrow> string" where
  "bullet_list [] = []"
| "bullet_list [t] = ''- '' @ t"
| "bullet_list (t # ts) = ''- '' @ t @ [CHR 0x0A] @ bullet_list ts"

text \<open>The settings of a process whose environment sets none of the variables.\<close>

definition default_settings :: settings where
  "default_settings =
     \<lparr>SUPABASE_URL = [], SUPABASE_SERVICE_ROLE_KEY = [],
      TOP_K_RESULTS = TOP_K_RESULTS_from_env None\<rparr>"

text \<open>
  The index of the specification's scenarios A and B: three passages with the vectors
  \<open>[1, 0]\<close>, \<open>[0, 1]\<close> and \<open>[0.7, 0.7]\<close>, loaded into a retriever built without data.
\<close>

definition scenario_chunks :: "doc list" where
  "scenario_chunks =
     [[''sentence_chunk'' \<mapsto> PStr ''v1''],
      [''sentence_chunk'' \<mapsto> PStr ''v2''],
      [''sentence_chunk'' \<mapsto> PStr ''v3'']]"

definition scenario_index :: LocalRetriever where
  "scenario_index =
     load_embeddings (LocalRetriever_init None None)
       [[1, 0], [0, 1], [7 / 10, 7 / 10]] scenario_chunks"

text \<open>An index of five one-dimensional passages, as many as the default \<open>top_k\<close>.\<close>

definition five_index :: LocalRetriever where
  "five_index =
     load_embeddings (LocalRetriever_init None None)
       [[5], [4], [3], [2], [1]]
       [[''page_number'' \<mapsto> PInt 1], [''page_number'' \<mapsto> PInt 2],
        [''page_number'' \<mapsto> PInt 3], [''page_number'' \<mapsto> PInt 4],
        [''page_number'' \<mapsto> PInt 5]]"

text \<open>An index of six one-dimensional passages, one more than the default \<open>top_k\<close>.\<close>

definition six_chunks :: "doc list" where
  "six_chunks =
     [[''page_number'' \<mapsto> PInt 1], [''page_number'' \<mapsto> PInt 2],
      [''page_number'' \<mapsto> PInt 3], [''page_number'' \<mapsto> PInt 4],
      [''page_number'' \<mapsto> PInt 5], [''page_number'' \<mapsto> PInt 6]]"

definition six_index :: LocalRetriever where
  "six_index =
     load_embeddings (LocalRetriever_init None None)
       [[6], [5], [4], [3], [2], [1]] six_chunks"

text \<open>
  An embedder of dimension 2 whose remote call fails on the text \<open>bad\<close>, and a store
  of two rows under the distance that reads the first coordinate of the stored vector.
\<close>

definition flaky_embedder :: GeminiEmbedder where
  "flaky_embedder =
     \<lparr>embedding_dimension = 2,
      embed_content = (\<lambda>t. if t = ''bad'' then Inl (APIError ''quota exceeded'') else Inr [1, 2])\<rparr>"

definition first_coordinate :: "vec \<Rightarrow> vec \<Rightarrow> real" where
  "first_coordinate v q = (case v of [] \<Rightarrow> 0 | x # _ \<Rightarrow> x)"

definition far_row :: document_row where
  "far_row =
     \<lparr>row_id = 1, page_number = 3, chunk_text = ''far'', chunk_char_count = 3,
      chunk_word_count = 1, chunk_token_count = 3 / 4, embedding = [3 / 5]\<rparr>"

definition near_row :: document_row where
  "near_row =
     \<lparr>row_id = 2, page_number = 4, chunk_text = ''near'', chunk_char_count = 4,
      chunk_word_count = 1, chunk_token_count = 1, embedding = [1 / 5]\<rparr>"

definition two_rows :: "document_row list" where
  "two_rows = [far_row, near_row]"

section \<open>Facts about the building blocks\<close>

lemma build_documents_in_range:
  "\<forall>p\<in>set sel. snd p < length chs \<Longrightarrow>
   build_documents chs sel =
     Inr (map (\<lambda>p. (chs ! snd p)(''similarity'' \<mapsto> PFloat (fst p), ''id'' \<mapsto> PInt (int (snd p)))) sel)"
  by (induction sel) auto

lemma build_documents_Inr:
  "build_documents chs sel = Inr docs \<Longrightarrow>
     (\<forall>p\<in>set sel. snd p < length chs) \<and>
     docs = map (\<lambda>p. (chs ! snd p)(''similarity'' \<mapsto> PFloat (fst p), ''id'' \<mapsto> PInt (int (snd p)))) sel"
  by (induction sel arbitrary: docs) (fastforce split: sum.splits if_splits)+

lemma sorted_take_drop_le:
  assumes "sorted (map f xs)" and "x \<in> set (take n xs)" and "y \<in> set (drop n xs)"
  shows "f x \<le> f y"
proof -
  have "sorted (map f (take n xs) @ map f (drop n xs))"
    using assms(1) by (simp flip: map_append)
  then show ?thesis using assms(2,3) by (auto simp: sorted_append)
qed

lemma in_set_zip_upt:
  "p \<in> set (zip xs [0..<length xs]) \<longleftrightarrow> snd p < length xs \<and> fst p = xs ! snd p"
  by (cases p) (auto simp: in_set_zip)

text \<open>What a successful \<open>torch_topk\<close> returns.\<close>

lemma torch_topk_Inr:
  assumes "torch_topk scores k = Inr sel"
  shows "0 \<le> k" and "k \<le> int (length scores)" and "length sel = nat k"
    and "sorted (rev (map fst sel))"
    and "distinct (map snd sel)"
    and "\<forall>p\<in>set sel. snd p < length scores \<and> fst p = scores ! snd p"
    and "\<forall>j<length scores. j \<notin> snd ` set sel \<longrightarrow> (\<forall>p\<in>set sel. scores ! j \<le> fst p)"
proof -
  let ?zs = "zip scores [0..<length scores]"
  let ?all = "sort_key (\<lambda>p. - fst p) ?zs"
  from assms have k: "0 \<le> k" "k \<le> int (length scores)" and sel: "sel = take (nat k) ?all"
    by (auto simp: torch_topk_def split: if_splits)
  show "0 \<le> k" "k \<le> int (length scores)" by fact+
  show "length sel = nat k" using k by (simp add: sel)
  have srt: "sorted (map (\<lambda>p. - fst p) ?all)" by (rule sorted_sort_key)
  have "sorted (map (\<lambda>p. - fst p) sel)"
    unfolding sel using srt by (simp add: take_map [symmetric])
  then show "sorted (rev (map fst sel))"
    by (simp add: sorted_wrt_iff_nth_less rev_nth sorted_rev_iff_nth_mono)
  have "distinct (map snd ?zs)" by simp
  then have "distinct ?zs \<and> inj_on snd (set ?zs)" by (simp only: distinct_map)
  then have "distinct (map snd ?all)" by (simp add: distinct_map)
  then show "distinct (map snd sel)"
    unfolding sel by (simp add: take_map [symmetric])
  have sub: "set sel \<subseteq> set ?zs"
    unfolding sel using set_take_subset [of "nat k" ?all] by simp
  show "\<forall>p\<in>set sel. snd p < length scores \<and> fst p = scores ! snd p"
    using sub in_set_zip_upt [of _ scores] by blast
  show "\<forall>j<length scores. j \<notin> snd ` set sel \<longrightarrow> (\<forall>p\<in>set sel. scores ! j \<le> fst p)"
  proof (intro allI impI ballI)
    fix j p
    assume j: "j < length scores" and nj: "j \<notin> snd ` set sel" and p: "p \<in> set sel"
    have "(scores ! j, j) \<in> set ?all" using j by (simp add: in_set_zip_upt)
    then have "(scores ! j, j) \<in> set (take (nat k) ?all) \<union> set (drop (nat k) ?all)"
      by (simp only: set_append [symmetric] append_take_drop_id)
    moreover have "(scores ! j, j) \<notin> set (take (nat k) ?all)"
      using nj unfolding sel by force
    ultimately have "(scores ! j, j) \<in> set (drop (nat k) ?all)" by blast
    from sorted_take_drop_le [OF srt _ this, of p] p
    show "scores ! j \<le> fst p" by (simp add: sel)
  qed
qed

text \<open>A successful search went through every stage.\<close>

lemma LocalRetriever_search_Inr:
  assumes "LocalRetriever_search cfg self q top_k = Inr docs"
  shows "\<exists>embs chs sel. embeddings self = Some embs \<and> chunks self = Some chs \<and>
           list_all (\<lambda>v. length v = length q) embs \<and>
           torch_topk (map (dot q) embs) (top_k_or top_k (TOP_K_RESULTS cfg)) = Inr sel \<and>
           build_documents chs sel = Inr docs"
  using assms
  by (auto simp: LocalRetriever_search_def torch_mm_row0_def Let_def
           split: option.splits sum.splits if_splits)

text \<open>With the count in range and a chunk for every vector, the search succeeds.\<close>

lemma LocalRetriever_search_in_range:
  assumes "embeddings self = Some embs" and "chunks self = Some chs"
    and "list_all (\<lambda>v. length v = length q) embs"
    and "length embs \<le> length chs"
    and "0 \<le> top_k_or top_k (TOP_K_RESULTS cfg)"
    and "top_k_or top_k (TOP_K_RESULTS cfg) \<le> int (length embs)"
  shows "\<exists>docs. LocalRetriever_search cfg self q top_k = Inr docs \<and>
           length docs = nat (top_k_or top_k (TOP_K_RESULTS cfg))"
proof -
  let ?k = "top_k_or top_k (TOP_K_RESULTS cfg)"
  obtain sel where sel: "torch_topk (map (dot q) embs) ?k = Inr sel"
    using assms(5,6) by (simp add: torch_topk_def)
  from torch_topk_Inr(3,6) [OF sel] have len: "length sel = nat ?k"
    and idx: "\<forall>p\<in>set sel. snd p < length chs" using assms(4) by auto
  from build_documents_in_range [OF idx]
  obtain docs where docs: "build_documents chs sel = Inr docs" and "length docs = length sel"
    by simp
  then show ?thesis
    using assms(1-3) sel len
    by (simp add: LocalRetriever_search_def torch_mm_row0_def)
qed

lemma doc_similarity_scored [simp]:
  "doc_similarity (c(''similarity'' \<mapsto> PFloat s, ''id'' \<mapsto> v)) = Some s"
  by (simp add: doc_similarity_def)

lemma doc_similarity_select_row [simp]:
  "doc_similarity (select_row d r) = Some (1 - d)"
  by (simp add: doc_similarity_def select_row_def)

lemma sorted_rev_antimono:
  "sorted (map f xs) \<Longrightarrow> sorted (rev (map (\<lambda>x. (c::real) - f x) xs))"
  by (induction xs) (auto simp: sorted_append)

text \<open>What a successful \<open>match_documents\<close> returns.\<close>

lemma match_documents_Inr:
  assumes "match_documents distance table q t k = Inr docs"
  shows "\<exists>rows. docs = map (\<lambda>r. select_row (distance (embedding r) q) r) rows \<and>
           set rows \<subseteq> set table \<and>
           (\<forall>r\<in>set rows. t < 1 - distance (embedding r) q) \<and>
           sorted (map (\<lambda>r. distance (embedding r) q) rows) \<and>
           length rows = min (nat k) (length (filter (\<lambda>r. t < 1 - distance (embedding r) q) table))"
proof -
  let ?d = "\<lambda>r. distance (embedding r) q"
  let ?hits = "filter (\<lambda>r. t < 1 - ?d r) table"
  let ?rows = "take (nat k) (sort_key ?d ?hits)"
  from assms have docs: "docs = map (\<lambda>r. select_row (?d r) r) ?rows"
    by (auto simp: match_documents_def split: if_splits)
  have sub: "set ?rows \<subseteq> set ?hits"
    using set_take_subset [of "nat k" "sort_key ?d ?hits"] by simp
  have "sorted (map ?d (sort_key ?d ?hits))" by (rule sorted_sort_key)
  then have "sorted (map ?d ?rows)" by (simp add: take_map [symmetric])
  moreover have "length ?rows = min (nat k) (length ?hits)" by (simp add: min.commute)
  ultimately show ?thesis using docs sub by (intro exI [of _ ?rows]) auto
qed

text \<open>A search through the store's client is the store's \<open>match_documents\<close>.\<close>

lemma SupabaseRetriever_search_store:
  "SupabaseRetriever_search cfg \<lparr>client = store_client distance table\<rparr> q top_k thr =
     match_documents distance table q (case thr of None \<Rightarrow> 1 / 2 | Some t \<Rightarrow> t)
       (top_k_or top_k (TOP_K_RESULTS cfg))"
  by (simp add: SupabaseRetriever_search_def store_client_def)

text \<open>Joining strings never fails, and a dash before the joined items lists them.\<close>

lemma str_join_strings:
  "texts \<noteq> [] \<Longrightarrow>
   \<exists>j. str_join [CHR 0x0A, CHR ''-'', CHR '' ''] (map PStr texts) = Inr j \<and>
       ''- '' @ j = bullet_list texts"
proof (induction texts rule: list_nonempty_induct)
  case (single t)
  then show ?case by simp
next
  case (cons t ts)
  then obtain j where "str_join [CHR 0x0A, CHR ''-'', CHR '' ''] (map PStr ts) = Inr j"
    and "''- '' @ j = bullet_list ts" by blast
  with cons.hyps show ?case by (cases ts) auto
qed

lemma chunk_texts_strings:
  "map (\<lambda>d. d ''chunk_text'') docs = map (\<lambda>t. Some (PStr t)) texts \<Longrightarrow>
   chunk_texts docs = Inr (map PStr texts)"
  by (induction docs arbitrary: texts) auto

lemma format_context_nonempty:
  "LocalRetriever_format_context docs \<noteq> Inr []"
  "SupabaseRetriever_format_context docs \<noteq> Inr []"
  by (auto simp: LocalRetriever_format_context_def SupabaseRetriever_format_context_def
           split: sum.splits)

text \<open>On a loaded retriever the search is the three stages in turn.\<close>

lemma LocalRetriever_search_loaded:
  "embeddings self = Some embs \<Longrightarrow> chunks self = Some chs \<Longrightarrow>
   LocalRetriever_search cfg self q top_k =
     (case torch_mm_row0 q embs of
        Inl e \<Rightarrow> Inl e
      | Inr dot_scores \<Rightarrow>
          (case torch_topk dot_scores (top_k_or top_k (TOP_K_RESULTS cfg)) of
             Inl e \<Rightarrow> Inl e
           | Inr selected \<Rightarrow> build_documents chs selected))"
  by (simp add: LocalRetriever_search_def)

lemma top_k_or_simps:
  "top_k_or None d = d" "top_k_or (Some 0) d = d" "top_k_or (Some d) d = d"
  "k \<noteq> 0 \<Longrightarrow> top_k_or (Some k) d = k"
  by (simp_all add: top_k_or_def)

lemmas fixture_defs = default_settings_def TOP_K_RESULTS_from_env_def scenario_index_def
  scenario_chunks_def load_embeddings_def LocalRetriever_init_def

lemmas store_defs = SupabaseRetriever_search_def store_client_def match_documents_def
  top_k_or_def first_coordinate_def two_rows_def far_row_def near_row_def

lemmas search_defs = LocalRetriever_search_def top_k_or_def torch_mm_row0_def torch_topk_def
  dot_def

section \<open>The claims\<close>

text \<open>
  C1. The specification asks that a search with \<open>top_k\<close> above the number \<open>N\<close> of
  passages return \<open>min(top_k, N)\<close> results without an error. The code passes \<open>top_k\<close>
  to \<open>torch.topk\<close> unchanged: on the index of three passages, \<open>top_k = 10\<close> raises the
  \<open>RuntimeError\<close> of the selection's range check and no result is returned.
\<close>

theorem search_top_k_above_size_raises:
  "LocalRetriever_search default_settings scenario_index [1, 0] (Some 10) =
     Inl (RuntimeError ''selected index k out of range'')"
  by (simp add: search_defs fixture_defs)

text \<open>
  C4. A retriever whose embeddings or chunks are absent answers every search with the
  error "Embeddings not loaded"; once \<open>load_embeddings\<close> has stored vectors of the
  query's dimension with a chunk for each, and the count is between 0 and the number
  of vectors, the same search returns documents.
\<close>

theorem search_before_load_fails:
  assumes "embeddings self = None \<or> chunks self = None"
  shows "LocalRetriever_search cfg self q top_k =
           Inl (ValueError ''Embeddings not loaded. Call load_embeddings() first.'') \<and>
         (list_all (\<lambda>v. length v = length q) embs \<and> length embs \<le> length chs \<and>
          0 \<le> top_k_or top_k (TOP_K_RESULTS cfg) \<and>
          top_k_or top_k (TOP_K_RESULTS cfg) \<le> int (length embs) \<longrightarrow>
          (\<exists>docs. LocalRetriever_search cfg (load_embeddings self embs chs) q top_k = Inr docs))"
proof
  show "LocalRetriever_search cfg self q top_k =
           Inl (ValueError ''Embeddings not loaded. Call load_embeddings() first.'')"
    using assms by (auto simp: LocalRetriever_search_def split: option.splits)
next
  show "list_all (\<lambda>v. length v = length q) embs \<and> length embs \<le> length chs \<and>
          0 \<le> top_k_or top_k (TOP_K_RESULTS cfg) \<and>
          top_k_or top_k (TOP_K_RESULTS cfg) \<le> int (length embs) \<longrightarrow>
          (\<exists>docs. LocalRetriever_search cfg (load_embeddings self embs chs) q top_k = Inr docs)"
    using LocalRetriever_search_in_range [of "load_embeddings self embs chs" embs chs q top_k cfg]
    by (auto simp: load_embeddings_def)
qed

theorem search_before_load_fails_witness:
  "embeddings (LocalRetriever_init None None) = None \<and>
   LocalRetriever_search default_settings (LocalRetriever_init None None) [1, 0] (Some 2) =
     Inl (ValueError ''Embeddings not loaded. Call load_embeddings() first.'') \<and>
   (\<exists>docs. LocalRetriever_search default_settings
             (load_embeddings (LocalRetriever_init None None)
                [[1, 0], [0, 1], [7 / 10, 7 / 10]] scenario_chunks)
             [1, 0] (Some 2) = Inr docs)"
  using search_before_load_fails [of "LocalRetriever_init None None" default_settings "[1, 0]"
      "Some 2" "[[1, 0], [0, 1], [7 / 10, 7 / 10]]" scenario_chunks]
  by (simp add: LocalRetriever_init_def top_k_or_def scenario_chunks_def)

text \<open>
  C9. The specification asks that a failed embedding reach the caller. In
  \<open>embed_chunks\<close> it does not: \<open>embed_text\<close> raises on the chunk \<open>bad\<close>, as the other
  embedders' batch methods would, but \<open>embed_chunks\<close> returns normally with a zero
  vector in that chunk's place.
\<close>

theorem embed_chunks_masks_failure:
  "embed_text flaky_embedder ''bad'' = Inl (APIError ''quota exceeded'') \<and>
   embed_chunks flaky_embedder [''ok'', ''bad'', ''ok''] None = Inr [[1, 2], [0, 0], [1, 2]]"
  by (simp add: embed_chunks_def embed_text_def np_zeros_def flaky_embedder_def numeral_2_eq_2)

text \<open>
  C10. On both backends a search with \<open>top_k\<close> left out, and one with \<open>top_k = 0\<close>,
  is the search with \<open>top_k\<close> equal to the configured \<open>TOP_K_RESULTS\<close>, which is 5
  unless the environment sets it. The count that reaches the selection of the local
  backend, and the \<open>match_count\<close> sent to the store, is \<open>TOP_K_RESULTS\<close>; a local search
  that succeeds returns that many documents, five of the six passages under the
  default settings.
\<close>

theorem top_k_default_substituted:
  "LocalRetriever_search cfg self q None =
     LocalRetriever_search cfg self q (Some (TOP_K_RESULTS cfg)) \<and>
   LocalRetriever_search cfg self q (Some 0) =
     LocalRetriever_search cfg self q (Some (TOP_K_RESULTS cfg)) \<and>
   SupabaseRetriever_search cfg remote q None thr =
     SupabaseRetriever_search cfg remote q (Some (TOP_K_RESULTS cfg)) thr \<and>
   SupabaseRetriever_search cfg remote q (Some 0) thr =
     SupabaseRetriever_search cfg remote q (Some (TOP_K_RESULTS cfg)) thr \<and>
   TOP_K_RESULTS default_settings = 5 \<and>
   TOP_K_RESULTS_from_env (Some n) = n \<and>
   ((top_k = None \<or> top_k = Some 0) \<and>
    embeddings self = Some embs \<and> chunks self = Some chs \<longrightarrow>
      LocalRetriever_search cfg self q top_k =
        (case torch_mm_row0 q embs of
           Inl e \<Rightarrow> Inl e
         | Inr dot_scores \<Rightarrow>
             (case torch_topk dot_scores (TOP_K_RESULTS cfg) of
                Inl e \<Rightarrow> Inl e
              | Inr selected \<Rightarrow> build_documents chs selected))) \<and>
   ((top_k = None \<or> top_k = Some 0) \<and>
    embeddings self = Some embs \<and> chunks self = Some chs \<and> embs \<noteq> [] \<and>
    list_all (\<lambda>v. length v = length q) embs \<and> length embs \<le> length chs \<and>
    0 \<le> TOP_K_RESULTS cfg \<and> TOP_K_RESULTS cfg \<le> int (length embs) \<longrightarrow>
      (\<exists>docs. LocalRetriever_search cfg self q top_k = Inr docs \<and>
         length docs = nat (TOP_K_RESULTS cfg))) \<and>
   ((top_k = None \<or> top_k = Some 0) \<longrightarrow>
      SupabaseRetriever_search cfg remote q top_k thr =
        client remote ''match_documents''
          \<lparr>query_embedding = q,
           match_threshold = (case thr of None \<Rightarrow> 1 / 2 | Some t \<Rightarrow> t),
           match_count = TOP_K_RESULTS cfg\<rparr>) \<and>
   LocalRetriever_search default_settings six_index [1] (Some 0) =
     Inr [[''page_number'' \<mapsto> PInt 1, ''similarity'' \<mapsto> PFloat 6, ''id'' \<mapsto> PInt 0],
          [''page_number'' \<mapsto> PInt 2, ''similarity'' \<mapsto> PFloat 5, ''id'' \<mapsto> PInt 1],
          [''page_number'' \<mapsto> PInt 3, ''similarity'' \<mapsto> PFloat 4, ''id'' \<mapsto> PInt 2],
          [''page_number'' \<mapsto> PInt 4, ''similarity'' \<mapsto> PFloat 3, ''id'' \<mapsto> PInt 3],
          [''page_number'' \<mapsto> PInt 5, ''similarity'' \<mapsto> PFloat 2, ''id'' \<mapsto> PInt 4]] \<and>
   LocalRetriever_search default_settings six_index [1] None =
     Inr [[''page_number'' \<mapsto> PInt 1, ''similarity'' \<mapsto> PFloat 6, ''id'' \<mapsto> PInt 0],
          [''page_number'' \<mapsto> PInt 2, ''similarity'' \<mapsto> PFloat 5, ''id'' \<mapsto> PInt 1],
          [''page_number'' \<mapsto> PInt 3, ''similarity'' \<mapsto> PFloat 4, ''id'' \<mapsto> PInt 2],
          [''page_number'' \<mapsto> PInt 4, ''similarity'' \<mapsto> PFloat 3, ''id'' \<mapsto> PInt 3],
          [''page_number'' \<mapsto> PInt 5, ''similarity'' \<mapsto> PFloat 2, ''id'' \<mapsto> PInt 4]]"
proof (intro conjI impI)
  show "LocalRetriever_search cfg self q None =
     LocalRetriever_search cfg self q (Some (TOP_K_RESULTS cfg))"
    unfolding LocalRetriever_search_def top_k_or_simps by (rule refl)
  show "LocalRetriever_search cfg self q (Some 0) =
     LocalRetriever_search cfg self q (Some (TOP_K_RESULTS cfg))"
    unfolding LocalRetriever_search_def top_k_or_simps by (rule refl)
  show "SupabaseRetriever_search cfg remote q None thr =
     SupabaseRetriever_search cfg remote q (Some (TOP_K_RESULTS cfg)) thr"
    unfolding SupabaseRetriever_search_def top_k_or_simps by (rule refl)
  show "SupabaseRetriever_search cfg remote q (Some 0) thr =
     SupabaseRetriever_search cfg remote q (Some (TOP_K_RESULTS cfg)) thr"
    unfolding SupabaseRetriever_search_def top_k_or_simps by (rule refl)
  show "TOP_K_RESULTS default_settings = 5"
    by (simp add: default_settings_def TOP_K_RESULTS_from_env_def)
  show "TOP_K_RESULTS_from_env (Some n) = n"
    by (simp add: TOP_K_RESULTS_from_env_def)
next
  assume a: "(top_k = None \<or> top_k = Some 0) \<and>
    embeddings self = Some embs \<and> chunks self = Some chs"
  then have k: "top_k_or top_k (TOP_K_RESULTS cfg) = TOP_K_RESULTS cfg"
    by (auto simp: top_k_or_simps)
  from a LocalRetriever_search_loaded [of self embs chs cfg q top_k]
  have "LocalRetriever_search cfg self q top_k =
        (case torch_mm_row0 q embs of
           Inl e \<Rightarrow> Inl e
         | Inr dot_scores \<Rightarrow>
             (case torch_topk dot_scores (top_k_or top_k (TOP_K_RESULTS cfg)) of
                Inl e \<Rightarrow> Inl e
              | Inr selected \<Rightarrow> build_documents chs selected))"
    by simp
  then show "LocalRetriever_search cfg self q top_k =
        (case torch_mm_row0 q embs of
           Inl e \<Rightarrow> Inl e
         | Inr dot_scores \<Rightarrow>
             (case torch_topk dot_scores (TOP_K_RESULTS cfg) of
                Inl e \<Rightarrow> Inl e
              | Inr selected \<Rightarrow> build_documents chs selected))"
    unfolding k .
next
  assume a: "(top_k = None \<or> top_k = Some 0) \<and>
    embeddings self = Some embs \<and> chunks self = Some chs \<and> embs \<noteq> [] \<and>
    list_all (\<lambda>v. length v = length q) embs \<and> length embs \<le> length chs \<and>
    0 \<le> TOP_K_RESULTS cfg \<and> TOP_K_RESULTS cfg \<le> int (length embs)"
  then have k: "top_k_or top_k (TOP_K_RESULTS cfg) = TOP_K_RESULTS cfg"
    by (auto simp: top_k_or_simps)
  from a k LocalRetriever_search_in_range [of self embs chs q top_k cfg]
  show "\<exists>docs. LocalRetriever_search cfg self q top_k = Inr docs \<and>
         length docs = nat (TOP_K_RESULTS cfg)"
    by simp
next
  assume "top_k = None \<or> top_k = Some 0"
  then have "top_k_or top_k (TOP_K_RESULTS cfg) = TOP_K_RESULTS cfg"
    by (auto simp: top_k_or_simps)
  then show "SupabaseRetriever_search cfg remote q top_k thr =
        client remote ''match_documents''
          \<lparr>query_embedding = q,
           match_threshold = (case thr of None \<Rightarrow> 1 / 2 | Some t \<Rightarrow> t),
           match_count = TOP_K_RESULTS cfg\<rparr>"
    by (simp add: SupabaseRetriever_search_def)
next
  show "LocalRetriever_search default_settings six_index [1] (Some 0) =
     Inr [[''page_number'' \<mapsto> PInt 1, ''similarity'' \<mapsto> PFloat 6, ''id'' \<mapsto> PInt 0],
          [''page_number'' \<mapsto> PInt 2, ''similarity'' \<mapsto> PFloat 5, ''id'' \<mapsto> PInt 1],
          [''page_number'' \<mapsto> PInt 3, ''similarity'' \<mapsto> PFloat 4, ''id'' \<mapsto> PInt 2],
          [''page_number'' \<mapsto> PInt 4, ''similarity'' \<mapsto> PFloat 3, ''id'' \<mapsto> PInt 3],
          [''page_number'' \<mapsto> PInt 5, ''similarity'' \<mapsto> PFloat 2, ''id'' \<mapsto> PInt 4]]"
    by (simp add: search_defs fixture_defs six_index_def six_chunks_def)
  show "LocalRetriever_search default_settings six_index [1] None =
     Inr [[''page_number'' \<mapsto> PInt 1, ''similarity'' \<mapsto> PFloat 6, ''id'' \<mapsto> PInt 0],
          [''page_number'' \<mapsto> PInt 2, ''similarity'' \<mapsto> PFloat 5, ''id'' \<mapsto> PInt 1],
          [''page_number'' \<mapsto> PInt 3, ''similarity'' \<mapsto> PFloat 4, ''id'' \<mapsto> PInt 2],
          [''page_number'' \<mapsto> PInt 4, ''similarity'' \<mapsto> PFloat 3, ''id'' \<mapsto> PInt 3],
          [''page_number'' \<mapsto> PInt 5, ''similarity'' \<mapsto> PFloat 2, ''id'' \<mapsto> PInt 4]]"
    by (simp add: search_defs fixture_defs six_index_def six_chunks_def)
qed

theorem top_k_default_substituted_witness:
  "embeddings six_index = Some [[6], [5], [4], [3], [2], [1]] \<and>
   chunks six_index = Some six_chunks \<and>
   (0::int) \<le> TOP_K_RESULTS default_settings \<and>
   TOP_K_RESULTS default_settings \<le> int (length [[6], [5], [4], [3], [2], [1::real]]) \<and>
   (\<exists>docs. LocalRetriever_search default_settings six_index [1] (Some 0) = Inr docs \<and>
      length docs = 5) \<and>
   SupabaseRetriever_search default_settings
       \<lparr>client = store_client first_coordinate two_rows\<rparr> [0] (Some 0) (Some (1 / 5)) =
     store_client first_coordinate two_rows ''match_documents''
       \<lparr>query_embedding = [0], match_threshold = 1 / 5, match_count = 5\<rparr> \<and>
   SupabaseRetriever_search default_settings
       \<lparr>client = store_client first_coordinate two_rows\<rparr> [0] (Some 0) (Some (1 / 5)) =
     Inr [select_row (1 / 5) near_row, select_row (3 / 5) far_row]"
proof -
  have five: "TOP_K_RESULTS default_settings = 5"
    by (simp add: default_settings_def TOP_K_RESULTS_from_env_def)
  have e: "embeddings six_index = Some [[6], [5], [4], [3], [2], [1]]"
    and c: "chunks six_index = Some six_chunks"
    by (simp_all add: six_index_def load_embeddings_def)
  have h: "(Some 0 = None \<or> Some 0 = Some (0::int)) \<and>
      embeddings six_index = Some [[6], [5], [4], [3], [2], [1]] \<and>
      chunks six_index = Some six_chunks \<and> [[6], [5], [4], [3], [2], [1::real]] \<noteq> [] \<and>
      list_all (\<lambda>v. length v = length [1::real]) [[6], [5], [4], [3], [2], [1::real]] \<and>
      length [[6], [5], [4], [3], [2], [1::real]] \<le> length six_chunks \<and>
      0 \<le> TOP_K_RESULTS default_settings \<and>
      TOP_K_RESULTS default_settings \<le> int (length [[6], [5], [4], [3], [2], [1::real]])"
    using e c by (simp add: five six_chunks_def)
  note t = top_k_default_substituted [where cfg = default_settings and self = six_index
      and q = "[1]" and top_k = "Some 0" and embs = "[[6], [5], [4], [3], [2], [1]]"
      and chs = six_chunks]
  from t [THEN conjunct2, THEN conjunct2, THEN conjunct2, THEN conjunct2, THEN conjunct2,
      THEN conjunct2, THEN conjunct2, THEN conjunct1, THEN mp, OF h]
  have l: "\<exists>docs. LocalRetriever_search default_settings six_index [1] (Some 0) = Inr docs \<and>
      length docs = 5"
    by (simp add: five)
  have o: "Some 0 = None \<or> Some 0 = Some (0::int)" by simp
  note u = top_k_default_substituted [where cfg = default_settings
      and remote = "\<lparr>client = store_client first_coordinate two_rows\<rparr>"
      and q = "[0]" and top_k = "Some 0" and thr = "Some (1 / 5)"]
  from u [THEN conjunct2, THEN conjunct2, THEN conjunct2, THEN conjunct2, THEN conjunct2,
      THEN conjunct2, THEN conjunct2, THEN conjunct2, THEN conjunct1, THEN mp, OF o]
  have r: "SupabaseRetriever_search default_settings
       \<lparr>client = store_client first_coordinate two_rows\<rparr> [0] (Some 0) (Some (1 / 5)) =
     store_client first_coordinate two_rows ''match_documents''
       \<lparr>query_embedding = [0], match_threshold = 1 / 5, match_count = 5\<rparr>"
    by (simp add: five)
  have v: "store_client first_coordinate two_rows ''match_documents''
       \<lparr>query_embedding = [0], match_threshold = 1 / 5, match_count = 5\<rparr> =
     Inr [select_row (1 / 5) near_row, select_row (3 / 5) far_row]"
    by (simp add: store_client_def match_documents_def first_coordinate_def two_rows_def
          far_row_def near_row_def)
  from h have z: "0 \<le> TOP_K_RESULTS default_settings"
    and y: "TOP_K_RESULTS default_settings \<le> int (length [[6], [5], [4], [3], [2], [1::real]])"
    by simp_all
  from e c z y l r show ?thesis by (intro conjI) (simp_all only: v)
qed

text \<open>
  C3. The specification asks that a search with \<open>top_k\<close> below 1 fail at once with
  an error for the invalid count. The code never checks \<open>top_k\<close>: the expression
  \<open>top_k or settings.TOP_K_RESULTS\<close> reads a count of 0 as a count left out, and on the
  index of five passages the search with \<open>top_k = 0\<close> returns five documents and no
  error.
\<close>

theorem zero_top_k_returns_default_count:
  "LocalRetriever_search default_settings five_index [1] (Some 0) =
     Inr [[''page_number'' \<mapsto> PInt 1, ''similarity'' \<mapsto> PFloat 5, ''id'' \<mapsto> PInt 0],
          [''page_number'' \<mapsto> PInt 2, ''similarity'' \<mapsto> PFloat 4, ''id'' \<mapsto> PInt 1],
          [''page_number'' \<mapsto> PInt 3, ''similarity'' \<mapsto> PFloat 3, ''id'' \<mapsto> PInt 2],
          [''page_number'' \<mapsto> PInt 4, ''similarity'' \<mapsto> PFloat 2, ''id'' \<mapsto> PInt 3],
          [''page_number'' \<mapsto> PInt 5, ''similarity'' \<mapsto> PFloat 1, ''id'' \<mapsto> PInt 4]]"
  by (simp add: search_defs fixture_defs five_index_def)

text \<open>
  C5. On both backends \<open>format_context\<close> of the empty list is the sentence
  "No relevant context found.", no list of documents is rendered as the empty string,
  and a non-empty list whose items are strings is rendered as the list of bullets of
  the specification: a dash before each text, one text on each line.
\<close>

theorem format_context_sentinel_and_bullets:
  "LocalRetriever_format_context [] = Inr ''No relevant context found.'' \<and>
   SupabaseRetriever_format_context [] = Inr ''No relevant context found.'' \<and>
   LocalRetriever_format_context docs \<noteq> Inr [] \<and>
   SupabaseRetriever_format_context docs \<noteq> Inr [] \<and>
   (docs \<noteq> [] \<and> map context_item docs = map PStr texts \<longrightarrow>
      LocalRetriever_format_context docs = Inr (bullet_list texts)) \<and>
   (docs \<noteq> [] \<and> map (\<lambda>d. d ''chunk_text'') docs = map (\<lambda>t. Some (PStr t)) texts \<longrightarrow>
      SupabaseRetriever_format_context docs = Inr (bullet_list texts))"
proof (intro conjI impI)
  show "LocalRetriever_format_context [] = Inr ''No relevant context found.''"
    by (simp add: LocalRetriever_format_context_def)
  show "SupabaseRetriever_format_context [] = Inr ''No relevant context found.''"
    by (simp add: SupabaseRetriever_format_context_def)
  show "LocalRetriever_format_context docs \<noteq> Inr []" by (rule format_context_nonempty)
  show "SupabaseRetriever_format_context docs \<noteq> Inr []" by (rule format_context_nonempty)
next
  assume a: "docs \<noteq> [] \<and> map context_item docs = map PStr texts"
  then have "texts \<noteq> []" by auto
  from str_join_strings [OF this] a
  show "LocalRetriever_format_context docs = Inr (bullet_list texts)"
    by (auto simp: LocalRetriever_format_context_def)
next
  assume a: "docs \<noteq> [] \<and> map (\<lambda>d. d ''chunk_text'') docs = map (\<lambda>t. Some (PStr t)) texts"
  then have "texts \<noteq> []" by auto
  from str_join_strings [OF this] a chunk_texts_strings [of docs texts]
  show "SupabaseRetriever_format_context docs = Inr (bullet_list texts)"
    by (auto simp: SupabaseRetriever_format_context_def)
qed

theorem format_context_sentinel_and_bullets_witness:
  "scenario_chunks \<noteq> [] \<and>
   map context_item scenario_chunks = map PStr [''v1'', ''v2'', ''v3''] \<and>
   LocalRetriever_format_context scenario_chunks =
     Inr (''- v1'' @ [CHR 0x0A] @ ''- v2'' @ [CHR 0x0A] @ ''- v3'') \<and>
   SupabaseRetriever_format_context
       [[''chunk_text'' \<mapsto> PStr ''a''], [''chunk_text'' \<mapsto> PStr ''b'']] =
     Inr (''- a'' @ [CHR 0x0A] @ ''- b'')"
  using format_context_sentinel_and_bullets [of scenario_chunks "[''v1'', ''v2'', ''v3'']"]
    format_context_sentinel_and_bullets
      [of "[[''chunk_text'' \<mapsto> PStr ''a''], [''chunk_text'' \<mapsto> PStr ''b'']]" "[''a'', ''b'']"]
  by (simp add: scenario_chunks_def context_item_def)

text \<open>
  C6. The documents of a successful search come with scores that never increase along
  the list, on the local backend and on the store that runs \<open>match_documents\<close>. Each
  document of the local backend carries under \<open>id\<close> the position of its passage in
  the chunk list, its score is the dot product with the vector at that position, and
  its other fields are the fields of the chunk at that position.
\<close>

theorem search_results_ranked:
  "(embeddings self = Some embs \<and> chunks self = Some chs \<and>
    LocalRetriever_search cfg self q top_k = Inr docs \<longrightarrow>
      (\<exists>ss. map doc_similarity docs = map Some ss \<and> sorted (rev ss)) \<and>
      (\<forall>d\<in>set docs. \<exists>i<length chs. i < length embs \<and>
          d ''id'' = Some (PInt (int i)) \<and>
          doc_similarity d = Some (dot q (embs ! i)) \<and>
          (\<forall>key. key \<noteq> ''similarity'' \<and> key \<noteq> ''id'' \<longrightarrow> d key = (chs ! i) key))) \<and>
   (SupabaseRetriever_search cfg \<lparr>client = store_client distance table\<rparr> q top_k thr = Inr rdocs \<longrightarrow>
      (\<exists>ss. map doc_similarity rdocs = map Some ss \<and> sorted (rev ss)))"
proof (intro conjI impI)
  assume a: "embeddings self = Some embs \<and> chunks self = Some chs \<and>
    LocalRetriever_search cfg self q top_k = Inr docs"
  let ?k = "top_k_or top_k (TOP_K_RESULTS cfg)"
  let ?mk = "\<lambda>p. (chs ! snd p)(''similarity'' \<mapsto> PFloat (fst p), ''id'' \<mapsto> PInt (int (snd p)))"
  from LocalRetriever_search_Inr [of cfg self q top_k docs] a
  obtain sel where sel: "torch_topk (map (dot q) embs) ?k = Inr sel"
    and bd: "build_documents chs sel = Inr docs" by auto
  note tk = torch_topk_Inr [OF sel]
  from build_documents_Inr [OF bd]
  have rng: "\<forall>p\<in>set sel. snd p < length chs" and docs: "docs = map ?mk sel" by auto
  have "map doc_similarity docs = map Some (map fst sel)" by (simp add: docs)
  with tk(4) show "\<exists>ss. map doc_similarity docs = map Some ss \<and> sorted (rev ss)" by blast
  show "\<forall>d\<in>set docs. \<exists>i<length chs. i < length embs \<and>
          d ''id'' = Some (PInt (int i)) \<and>
          doc_similarity d = Some (dot q (embs ! i)) \<and>
          (\<forall>key. key \<noteq> ''similarity'' \<and> key \<noteq> ''id'' \<longrightarrow> d key = (chs ! i) key)"
  proof
    fix d assume "d \<in> set docs"
    then obtain p where p: "p \<in> set sel" and d: "d = ?mk p" by (auto simp: docs)
    from tk(6) p have "snd p < length embs" and "fst p = dot q (embs ! snd p)" by auto
    with rng p d show "\<exists>i<length chs. i < length embs \<and>
          d ''id'' = Some (PInt (int i)) \<and>
          doc_similarity d = Some (dot q (embs ! i)) \<and>
          (\<forall>key. key \<noteq> ''similarity'' \<and> key \<noteq> ''id'' \<longrightarrow> d key = (chs ! i) key)"
      by (intro exI [of _ "snd p"]) simp
  qed
next
  assume "SupabaseRetriever_search cfg \<lparr>client = store_client distance table\<rparr> q top_k thr = Inr rdocs"
  then have "match_documents distance table q (case thr of None \<Rightarrow> 1 / 2 | Some t \<Rightarrow> t)
       (top_k_or top_k (TOP_K_RESULTS cfg)) = Inr rdocs"
    by (simp only: SupabaseRetriever_search_store)
  from match_documents_Inr [OF this]
  obtain rows where rd: "rdocs = map (\<lambda>r. select_row (distance (embedding r) q) r) rows"
    and srt: "sorted (map (\<lambda>r. distance (embedding r) q) rows)" by blast
  have "map doc_similarity rdocs = map Some (map (\<lambda>r. 1 - distance (embedding r) q) rows)"
    by (simp add: rd)
  with sorted_rev_antimono [OF srt, of 1]
  show "\<exists>ss. map doc_similarity rdocs = map Some ss \<and> sorted (rev ss)" by blast
qed

theorem search_results_ranked_witness:
  "embeddings scenario_index = Some [[1, 0], [0, 1], [7 / 10, 7 / 10]] \<and>
   chunks scenario_index = Some scenario_chunks \<and>
   LocalRetriever_search default_settings scenario_index [1, 0] (Some 3) =
     Inr [[''sentence_chunk'' \<mapsto> PStr ''v1'', ''similarity'' \<mapsto> PFloat 1, ''id'' \<mapsto> PInt 0],
          [''sentence_chunk'' \<mapsto> PStr ''v3'', ''similarity'' \<mapsto> PFloat (7 / 10),
           ''id'' \<mapsto> PInt 2],
          [''sentence_chunk'' \<mapsto> PStr ''v2'', ''similarity'' \<mapsto> PFloat 0, ''id'' \<mapsto> PInt 1]] \<and>
   (\<exists>ss. map doc_similarity
           [[''sentence_chunk'' \<mapsto> PStr ''v1'', ''similarity'' \<mapsto> PFloat 1, ''id'' \<mapsto> PInt 0],
            [''sentence_chunk'' \<mapsto> PStr ''v3'', ''similarity'' \<mapsto> PFloat (7 / 10),
             ''id'' \<mapsto> PInt 2],
            [''sentence_chunk'' \<mapsto> PStr ''v2'', ''similarity'' \<mapsto> PFloat 0, ''id'' \<mapsto> PInt 1]] =
           map Some ss \<and> sorted (rev ss)) \<and>
   SupabaseRetriever_search default_settings \<lparr>client = store_client first_coordinate two_rows\<rparr>
       [0] None (Some (1 / 5)) =
     Inr [select_row (1 / 5) near_row, select_row (3 / 5) far_row] \<and>
   (\<exists>ss. map doc_similarity [select_row (1 / 5) near_row, select_row (3 / 5) far_row] =
           map Some ss \<and> sorted (rev ss))"
proof -
  let ?docs = "[[''sentence_chunk'' \<mapsto> PStr ''v1'', ''similarity'' \<mapsto> PFloat 1, ''id'' \<mapsto> PInt 0],
          [''sentence_chunk'' \<mapsto> PStr ''v3'', ''similarity'' \<mapsto> PFloat (7 / 10),
           ''id'' \<mapsto> PInt 2],
          [''sentence_chunk'' \<mapsto> PStr ''v2'', ''similarity'' \<mapsto> PFloat 0, ''id'' \<mapsto> PInt 1]]"
  let ?rdocs = "[select_row (1 / 5) near_row, select_row (3 / 5) far_row]"
  have h: "embeddings scenario_index = Some [[1, 0], [0, 1], [7 / 10, 7 / 10]] \<and>
      chunks scenario_index = Some scenario_chunks \<and>
      LocalRetriever_search default_settings scenario_index [1, 0] (Some 3) = Inr ?docs"
    by (simp add: search_defs fixture_defs)
  have r: "SupabaseRetriever_search default_settings
             \<lparr>client = store_client first_coordinate two_rows\<rparr> [0] None (Some (1 / 5)) =
           Inr ?rdocs"
    by (simp add: store_defs default_settings_def TOP_K_RESULTS_from_env_def)
  from search_results_ranked [where self = scenario_index
      and embs = "[[1, 0], [0, 1], [7 / 10, 7 / 10]]" and chs = scenario_chunks
      and cfg = default_settings and q = "[1, 0]" and top_k = "Some 3" and docs = ?docs,
      THEN conjunct1, THEN mp, OF h]
  have l: "\<exists>ss. map doc_similarity ?docs = map Some ss \<and> sorted (rev ss)"
    by (elim conjE)
  from search_results_ranked [where cfg = default_settings and distance = first_coordinate
      and table = two_rows and q = "[0]" and top_k = None and thr = "Some (1 / 5)"
      and rdocs = ?rdocs, THEN conjunct2, THEN mp, OF r]
  have "\<exists>ss. map doc_similarity ?rdocs = map Some ss \<and> sorted (rev ss)" .
  with h r l show ?thesis by (intro conjI) simp_all
qed

text \<open>
  C7. The factory answers from the mode alone: \<open>local\<close> builds the in-memory retriever
  from the given data, \<open>supabase\<close> builds the remote retriever around the client that
  \<open>create_client\<close> answers, and any other mode raises the \<open>ValueError\<close> naming the mode
  with an empty trace, that is, without a call that leaves the process.
\<close>

theorem get_retriever_by_mode:
  "get_retriever create_client cfg (Some ''local'') embs chs =
     (Inr (Local (LocalRetriever_init embs chs)), []) \<and>
   (create_client (SUPABASE_URL cfg) (SUPABASE_SERVICE_ROLE_KEY cfg) = Inr c \<longrightarrow>
    fst (get_retriever create_client cfg (Some ''supabase'') embs chs) =
      Inr (Supabase \<lparr>client = c\<rparr>)) \<and>
   (mode \<noteq> ''local'' \<and> mode \<noteq> ''supabase'' \<longrightarrow>
    get_retriever create_client cfg (Some mode) embs chs =
      (Inl (ValueError (''Invalid retriever mode: '' @ mode @ ''. Must be ''
              @ [CHR 0x27] @ ''local'' @ [CHR 0x27] @ '' or ''
              @ [CHR 0x27] @ ''supabase'' @ [CHR 0x27])), []))"
  by (simp add: get_retriever_def SupabaseRetriever_init_def)

theorem get_retriever_by_mode_witness:
  "(\<lambda>u k. Inr (store_client first_coordinate two_rows))
      (SUPABASE_URL default_settings) (SUPABASE_SERVICE_ROLE_KEY default_settings) =
     Inr (store_client first_coordinate two_rows) \<and>
   fst (get_retriever (\<lambda>u k. Inr (store_client first_coordinate two_rows)) default_settings
          (Some ''supabase'') None None) =
     Inr (Supabase \<lparr>client = store_client first_coordinate two_rows\<rparr>) \<and>
   ''remote-store'' \<noteq> ''local'' \<and> ''remote-store'' \<noteq> ''supabase'' \<and>
   get_retriever (\<lambda>u k. Inr (store_client first_coordinate two_rows)) default_settings
          (Some ''remote-store'') None None =
     (Inl (ValueError (''Invalid retriever mode: remote-store. Must be ''
              @ [CHR 0x27] @ ''local'' @ [CHR 0x27] @ '' or ''
              @ [CHR 0x27] @ ''supabase'' @ [CHR 0x27])), [])"
  using get_retriever_by_mode [of "\<lambda>u k. Inr (store_client first_coordinate two_rows)"
      default_settings None None "store_client first_coordinate two_rows" "''remote-store''"]
  by simp

text \<open>
  C8. A successful search on the store returns rows of the table, each with
  \<open>similarity\<close> equal to 1 minus its distance and above the threshold (0.5 when the
  caller gives none), in order of ascending distance, and no more of them than the
  count. When the count is not negative, the dimensions agree and no row is above the
  threshold, the search succeeds with the empty list.
\<close>

theorem remote_search_threshold_order_cap:
  "(SupabaseRetriever_search cfg \<lparr>client = store_client distance table\<rparr> q top_k thr = Inr docs \<longrightarrow>
      (\<exists>rows. docs = map (\<lambda>r. select_row (distance (embedding r) q) r) rows \<and>
         set rows \<subseteq> set table \<and>
         map doc_similarity docs = map (\<lambda>r. Some (1 - distance (embedding r) q)) rows \<and>
         (\<forall>r\<in>set rows. (case thr of None \<Rightarrow> 1 / 2 | Some t \<Rightarrow> t) < 1 - distance (embedding r) q) \<and>
         sorted (map (\<lambda>r. distance (embedding r) q) rows) \<and>
         length docs \<le> nat (top_k_or top_k (TOP_K_RESULTS cfg)))) \<and>
   (0 \<le> top_k_or top_k (TOP_K_RESULTS cfg) \<and>
    list_all (\<lambda>r. length (embedding r) = length q) table \<and>
    (\<forall>r\<in>set table. \<not> (case thr of None \<Rightarrow> 1 / 2 | Some t \<Rightarrow> t) < 1 - distance (embedding r) q) \<longrightarrow>
      SupabaseRetriever_search cfg \<lparr>client = store_client distance table\<rparr> q top_k thr = Inr [])"
proof (intro conjI impI)
  let ?t = "case thr of None \<Rightarrow> 1 / 2 | Some t \<Rightarrow> t"
  let ?k = "top_k_or top_k (TOP_K_RESULTS cfg)"
  assume "SupabaseRetriever_search cfg \<lparr>client = store_client distance table\<rparr> q top_k thr = Inr docs"
  then have "match_documents distance table q ?t ?k = Inr docs"
    by (simp only: SupabaseRetriever_search_store)
  from match_documents_Inr [OF this]
  obtain rows where rows: "docs = map (\<lambda>r. select_row (distance (embedding r) q) r) rows"
    "set rows \<subseteq> set table" "\<forall>r\<in>set rows. ?t < 1 - distance (embedding r) q"
    "sorted (map (\<lambda>r. distance (embedding r) q) rows)"
    "length rows = min (nat ?k) (length (filter (\<lambda>r. ?t < 1 - distance (embedding r) q) table))"
    by blast
  have "map doc_similarity docs = map (\<lambda>r. Some (1 - distance (embedding r) q)) rows"
    by (simp add: rows(1))
  moreover have "length docs \<le> nat ?k" using rows(1,5) by simp
  ultimately show "\<exists>rows. docs = map (\<lambda>r. select_row (distance (embedding r) q) r) rows \<and>
         set rows \<subseteq> set table \<and>
         map doc_similarity docs = map (\<lambda>r. Some (1 - distance (embedding r) q)) rows \<and>
         (\<forall>r\<in>set rows. ?t < 1 - distance (embedding r) q) \<and>
         sorted (map (\<lambda>r. distance (embedding r) q) rows) \<and>
         length docs \<le> nat ?k"
    using rows(1-4) by blast
next
  let ?t = "case thr of None \<Rightarrow> 1 / 2 | Some t \<Rightarrow> t"
  assume a: "0 \<le> top_k_or top_k (TOP_K_RESULTS cfg) \<and>
    list_all (\<lambda>r. length (embedding r) = length q) table \<and>
    (\<forall>r\<in>set table. \<not> ?t < 1 - distance (embedding r) q)"
  then have "filter (\<lambda>r. ?t < 1 - distance (embedding r) q) table = []"
    by (simp add: filter_empty_conv)
  with a show "SupabaseRetriever_search cfg \<lparr>client = store_client distance table\<rparr> q top_k thr = Inr []"
    by (simp add: SupabaseRetriever_search_store match_documents_def)
qed

theorem remote_search_threshold_order_cap_witness:
  "SupabaseRetriever_search default_settings \<lparr>client = store_client first_coordinate two_rows\<rparr>
       [0] None None =
     Inr [select_row (1 / 5) near_row] \<and>
   (\<exists>rows. [select_row (1 / 5) near_row] =
        map (\<lambda>r. select_row (first_coordinate (embedding r) [0]) r) rows \<and>
      sorted (map (\<lambda>r. first_coordinate (embedding r) [0]) rows) \<and>
      length [select_row (1 / 5) near_row]
        \<le> nat (top_k_or None (TOP_K_RESULTS default_settings))) \<and>
   (0::int) \<le> top_k_or None (TOP_K_RESULTS default_settings) \<and>
   list_all (\<lambda>r. length (embedding r) = length [0::real]) [far_row] \<and>
   \<not> 1 / 2 < 1 - first_coordinate (embedding far_row) [0] \<and>
   SupabaseRetriever_search default_settings \<lparr>client = store_client first_coordinate [far_row]\<rparr>
       [0] None None = Inr []"
proof -
  let ?rdocs = "[select_row (1 / 5) near_row]"
  have r: "SupabaseRetriever_search default_settings
             \<lparr>client = store_client first_coordinate two_rows\<rparr> [0] None None = Inr ?rdocs"
    by (simp add: store_defs default_settings_def TOP_K_RESULTS_from_env_def)
  from remote_search_threshold_order_cap [where cfg = default_settings
      and distance = first_coordinate and table = two_rows and q = "[0]" and top_k = None
      and thr = None and docs = ?rdocs, THEN conjunct1, THEN mp, OF r]
  obtain rows where "?rdocs = map (\<lambda>r. select_row (first_coordinate (embedding r) [0]) r) rows"
    and "sorted (map (\<lambda>r. first_coordinate (embedding r) [0]) rows)"
    and "length ?rdocs \<le> nat (top_k_or None (TOP_K_RESULTS default_settings))"
    by (elim exE conjE)
  then have e: "\<exists>rows. ?rdocs = map (\<lambda>r. select_row (first_coordinate (embedding r) [0]) r) rows \<and>
      sorted (map (\<lambda>r. first_coordinate (embedding r) [0]) rows) \<and>
      length ?rdocs \<le> nat (top_k_or None (TOP_K_RESULTS default_settings))"
    by (intro exI conjI)
  have h: "0 \<le> top_k_or None (TOP_K_RESULTS default_settings) \<and>
      list_all (\<lambda>r. length (embedding r) = length [0::real]) [far_row] \<and>
      (\<forall>r\<in>set [far_row]. \<not> (case None of None \<Rightarrow> 1 / 2 | Some t \<Rightarrow> t)
          < 1 - first_coordinate (embedding r) [0])"
    by (simp add: top_k_or_def default_settings_def TOP_K_RESULTS_from_env_def far_row_def
          first_coordinate_def)
  from remote_search_threshold_order_cap [where cfg = default_settings
      and distance = first_coordinate and table = "[far_row]" and q = "[0]" and top_k = None
      and thr = None, THEN conjunct2, THEN mp, OF h]
  have d: "SupabaseRetriever_search default_settings
             \<lparr>client = store_client first_coordinate [far_row]\<rparr> [0] None None = Inr []" .
  from h have n: "\<not> 1 / 2 < 1 - first_coordinate (embedding far_row) [0]"
    and z: "0 \<le> top_k_or None (TOP_K_RESULTS default_settings)"
    and la: "list_all (\<lambda>r. length (embedding r) = length [0::real]) [far_row]"
    by simp_all
  from r e z la n d show ?thesis by (intro conjI)
qed

end
